theory Spec2Isabelle
  imports Complex_Main "HOL-Library.Monad_Syntax" "HOL-Library.Word"
begin

section \<open>Geometry primitives\<close>

text \<open>
  Planar coordinates are signed integers in micrometres (\<open>coord_t\<close>).  A polygon is its
  list of vertices and \<open>Polygons\<close> is a list of polygons, as in the clipping library.
\<close>

type_synonym coord_t = int
type_synonym Point = "coord_t \<times> coord_t"
type_synonym Polygon = "Point list"
type_synonym Polygons = "Polygon list"
type_synonym PolygonsPart = "Polygon list"

datatype JoinType = jtSquare | jtRound | jtMiter

definition coord_max :: coord_t where
  \<comment> \<open>\<open>std::numeric_limits<coord_t>::max()\<close> for the 64-bit \<open>coord_t\<close>\<close>
  "coord_max = 2 ^ 63 - 1"



definition cdiv :: "int \<Rightarrow> int \<Rightarrow> int" where
  \<comment> \<open>C++ integer division: the quotient is truncated towards zero\<close>
  "cdiv a b = sgn a * sgn b * (\<bar>a\<bar> div \<bar>b\<bar>)"


definition vSize2 :: "Point \<Rightarrow> coord_t" where
  "vSize2 p = fst p * fst p + snd p * snd p"

definition vSize :: "Point \<Rightarrow> coord_t" where
  \<comment> \<open>\<open>sqrt(vSize2(p))\<close> converted back to \<open>coord_t\<close>, that is, truncated\<close>
  "vSize p = \<lfloor>sqrt (real_of_int (vSize2 p))\<rfloor>"

definition at_index :: "'a list \<Rightarrow> int \<Rightarrow> 'a option" where
  \<comment> \<open>\<open>v[i]\<close> on a \<open>std::vector\<close>: an index out of range is undefined behaviour, here \<open>None\<close>\<close>
  "at_index xs i = (if 0 \<le> i \<and> i < int (length xs) then Some (xs ! nat i) else None)"

definition round_double :: "real \<Rightarrow> int" where
  \<comment> \<open>\<open>std::round\<close>: to the nearest integer, halfway cases away from zero\<close>
  "round_double x = (if 0 \<le> x then \<lfloor>x + 1 / 2\<rfloor> else \<lceil>x - 1 / 2\<rceil>)"

section \<open>Settings and storage\<close>

datatype ESupportType = NONE_SUPPORT | PLATFORM_ONLY | EVERYWHERE
datatype BuildPlateShape = RECTANGULAR | ELLIPTIC
datatype EPlatformAdhesion = SKIRT | BRIM | RAFT | NONE

text \<open>
  The settings the generator reads, one field per key of \<open>settings.get<T>("key")\<close>.
  An \<open>AngleRadians\<close> setting is a real number (radians); floating point arithmetic is
  idealised as exact real arithmetic.
\<close>

record Settings =
  get_support_tree_enable :: bool
  get_layer_height :: coord_t
  get_support_tree_angle :: real
  get_support_tree_branch_diameter :: coord_t
  get_support_tree_branch_diameter_angle :: real
  get_support_tree_collision_resolution :: coord_t
  get_support_tree_branch_distance :: coord_t
  get_support_tree_wall_count :: nat
  get_support_xy_distance :: coord_t
  get_support_type :: ESupportType
  get_support_top_distance :: coord_t
  get_support_bottom_distance :: coord_t
  get_support_roof_enable :: bool
  get_support_roof_height :: coord_t
  get_support_angle :: real
  get_support_line_width :: coord_t
  get_support_bottom_enable :: bool
  get_support_interface_skip_height :: coord_t
  get_support_bottom_height :: coord_t
  get_machine_shape :: BuildPlateShape
  get_adhesion_type :: EPlatformAdhesion
  get_initial_layer_line_width_factor :: real
  get_skirt_brim_line_width :: coord_t
  get_brim_line_count :: nat
  get_raft_margin :: coord_t
  get_skirt_gap :: coord_t
  get_skirt_line_count :: nat

type_synonym SupportInfillPart = "PolygonsPart \<times> coord_t \<times> nat"

record SupportLayer =
  support_infill_parts :: "SupportInfillPart list"
  support_roof :: Polygons
  support_bottom :: Polygons

record SupportStorage =
  generated :: bool
  layer_nr_max_filled_layer :: int
  supportLayers :: "SupportLayer list"

record AABB =
  aabb_min :: Point
  aabb_max :: Point

record SliceMeshStorage =
  mesh_settings :: Settings
  overhang_areas :: "Polygons list"
  bounding_box :: AABB  \<comment> \<open>the mesh's box, already flattened to the plane\<close>

record SliceDataStorage =
  meshes :: "SliceMeshStorage list"
  support :: SupportStorage

text \<open>
  The polygon clipping library, \<open>PolygonUtils\<close>, \<open>AABB\<close>, the minimum spanning tree, the
  slicer's \<open>getLayerOutlines\<close> and the C mathematics library are not part of the verified
  sources.  Every function of theirs that the tree support generator calls is a field of the
  record \<open>extern\<close>, and the program is verified for every value of that record.  The field
  \<open>NDEBUG\<close> is the build configuration: when it is false an \<open>assert\<close> that fails aborts
  the run.
\<close>

record extern =
  offset :: "Polygons \<Rightarrow> coord_t \<Rightarrow> JoinType \<Rightarrow> Polygons"
  unionPolygons :: "Polygons \<Rightarrow> Polygons \<Rightarrow> Polygons"
  unionSelf :: "Polygons \<Rightarrow> Polygons"
  difference :: "Polygons \<Rightarrow> Polygons \<Rightarrow> Polygons"
  intersection :: "Polygons \<Rightarrow> Polygons \<Rightarrow> Polygons"
  smooth :: "Polygons \<Rightarrow> int \<Rightarrow> Polygons"
  simplify :: "Polygons \<Rightarrow> coord_t \<Rightarrow> coord_t \<Rightarrow> Polygons"
  splitIntoParts :: "Polygons \<Rightarrow> PolygonsPart list"
  inside :: "Polygons \<Rightarrow> Point \<Rightarrow> bool \<Rightarrow> bool"
  findClosest :: "Point \<Rightarrow> Polygons \<Rightarrow> Point"
  moveInside :: "Polygons \<Rightarrow> Point \<Rightarrow> coord_t \<Rightarrow> coord_t \<Rightarrow> Point"
  moveOutside :: "Polygons \<Rightarrow> Point \<Rightarrow> coord_t \<Rightarrow> coord_t \<Rightarrow> Point"
  ensureInsideOrOutside :: "Polygons \<Rightarrow> Point \<Rightarrow> Point \<Rightarrow> coord_t \<Rightarrow> Point"
  normal :: "Point \<Rightarrow> coord_t \<Rightarrow> Point"
  rotate :: "Point \<Rightarrow> real \<Rightarrow> Point"
  aabb_of :: "Polygon \<Rightarrow> AABB"
  aabb_include :: "AABB option \<Rightarrow> Point \<Rightarrow> AABB"
  aabb_expand :: "AABB \<Rightarrow> coord_t \<Rightarrow> AABB"
  aabb_contains :: "AABB \<Rightarrow> Point \<Rightarrow> bool"
  aabb_getMiddle :: "AABB \<Rightarrow> Point"
  adjacentNodes :: "Point list \<Rightarrow> Point \<Rightarrow> Point list"
  getLayerOutlines :: "SliceDataStorage \<Rightarrow> nat \<Rightarrow> bool \<Rightarrow> Polygons"
  tan_double :: "real \<Rightarrow> real"
  sin_double :: "real \<Rightarrow> real"
  cos_double :: "real \<Rightarrow> real"
  round_to_double :: "real \<Rightarrow> real"
  cast_out_of_range :: "real \<Rightarrow> 64 word"
  NDEBUG :: bool

text \<open>
  A \<open>double\<close> is the real number it stands for.  The library functions \<open>tan\<close>, \<open>sin\<close> and
  \<open>cos\<close> return doubles, and the result of an arithmetic operation on doubles is the exact
  result rounded by \<open>round_to_double\<close>.  The cast \<open>(coord_t)x\<close> discards the fractional part
  when the result fits the 64 bits of \<open>coord_t\<close>.  When it does not fit, the conversion is
  undefined in C++ and the compiled program yields some 64-bit value (\<open>INT64_MIN\<close> on x86):
  that value is \<open>cast_out_of_range\<close>, so the result of a cast is a \<open>coord_t\<close> in every case.
\<close>

definition mul_double :: "extern \<Rightarrow> real \<Rightarrow> real \<Rightarrow> real" where
  "mul_double E x y = round_to_double E (x * y)"



definition truncate_double :: "real \<Rightarrow> int" where
  "truncate_double x = (if 0 \<le> x then \<lfloor>x\<rfloor> else \<lceil>x\<rceil>)"

definition to_coord :: "extern \<Rightarrow> real \<Rightarrow> coord_t" where
  "to_coord E x =
     (if - (2 ^ 63) \<le> truncate_double x \<and> truncate_double x \<le> coord_max
      then truncate_double x
      else sint (cast_out_of_range E x))"

definition assert_that :: "extern \<Rightarrow> bool \<Rightarrow> unit option" where
  \<comment> \<open>\<open>assert(c)\<close>: nothing in a release build, an abort in a debug build when \<open>c\<close> is false\<close>
  "assert_that E c = (if NDEBUG E \<or> c then Some () else None)"

section \<open>The per-layer motion limit\<close>

text \<open>
  The limit is computed at three places.  \<open>TreeSupport::dropNodes\<close> and the constructor of
  \<open>TreeParams\<close> compare the angle, which is in radians, with the number 90;
  \<open>TreeSupport::propagateCollisionAreas\<close> compares it with \<open>TAU / 4\<close>.
\<close>

definition TAU :: real where
  "TAU = 2 * pi"

definition dropNodes_maximum_move_distance :: "extern \<Rightarrow> Settings \<Rightarrow> coord_t" where
  "dropNodes_maximum_move_distance E s =
     (let layer_height = get_layer_height s;
          angle = get_support_tree_angle s
      in if angle < 90
         then to_coord E (mul_double E (tan_double E angle) (real_of_int layer_height))
         else coord_max)"

definition propagateCollisionAreas_maximum_move_distance :: "extern \<Rightarrow> Settings \<Rightarrow> coord_t" where
  "propagateCollisionAreas_maximum_move_distance E s =
     (let layer_height = get_layer_height s;
          angle = get_support_tree_angle s
      in if angle < TAU / 4
         then to_coord E (mul_double E (tan_double E angle) (real_of_int layer_height))
         else coord_max)"

definition TreeParams_max_move :: "extern \<Rightarrow> Settings \<Rightarrow> coord_t" where
  "TreeParams_max_move E s =
     (let layer_height = get_layer_height s;
          support_angle = get_support_tree_angle s
      in if support_angle < 90
         then to_coord E (mul_double E (tan_double E support_angle) (real_of_int layer_height))
         else coord_max)"

section \<open>Collision and avoidance areas of \<open>TreeSupport\<close>\<close>

text \<open>
  \<open>TreeSupport::collisionAreas\<close> fills \<open>model_collision[radius_sample][layer_nr]\<close>.  The
  number of radius samples is the size the vector is resized to; it comes out of a
  floating point computation on the settings and is the argument \<open>n_samples\<close> here.
\<close>

definition collisionAreas ::
  "extern \<Rightarrow> Polygons \<Rightarrow> Settings \<Rightarrow> SliceDataStorage \<Rightarrow> nat \<Rightarrow> Polygons list list" where
  "collisionAreas E machine_volume_border s storage n_samples =
     (let radius_sample_resolution = get_support_tree_collision_resolution s;
          xy_distance = get_support_xy_distance s;
          include_helper_parts = False
      in map (\<lambda>radius_sample.
               let radius = int radius_sample * radius_sample_resolution
               in map (\<lambda>layer_nr.
                        let collision = getLayerOutlines E storage layer_nr include_helper_parts;
                            collision = unionPolygons E collision machine_volume_border;
                            collision = offset E collision (xy_distance + radius) jtRound
                        in collision)
                      [0 ..< length (supportLayers (support storage))])
             [0 ..< n_samples])"





section \<open>\<open>Tree::TreeParams\<close> and \<open>Tree::ModelVolumes\<close>\<close>

record TreeParams =
  branch_radius :: coord_t
  radius_sample_resolution :: coord_t
  layer_height :: coord_t
  xy_distance :: coord_t
  max_move :: coord_t
  radius_increment :: coord_t
  point_spread :: coord_t
  z_gap :: coord_t
  support_roof_layers :: nat
  support_angle :: real
  initial_radius :: coord_t
  can_support_on_model :: bool
  buildplate_shape :: BuildPlateShape
  adhesion_type :: EPlatformAdhesion
  brim_size :: coord_t
  raft_margin :: coord_t
  skirt_size :: coord_t
  line_width :: coord_t
  wall_count :: int

type_synonym RadiusLayerPair = "coord_t \<times> int"

text \<open>
  The three caches are \<open>std::unordered_map\<close>s from (radius, layer) to polygons.  A call
  returns a reference into the cache; the model returns the polygons and the updated
  object.  \<open>None\<close> is a call without a defined result: undefined behaviour (an index out
  of range), a failed assertion, or a recursion that does not return.
\<close>

record ModelVolumes =
  params :: TreeParams
  machine_border :: Polygons
  layer_outlines :: "Polygons list"
  collision_cache :: "RadiusLayerPair \<rightharpoonup> Polygons"
  avoidance_cache :: "RadiusLayerPair \<rightharpoonup> Polygons"
  internal_model_cache :: "RadiusLayerPair \<rightharpoonup> Polygons"

definition ModelVolumes_ctor ::
  "extern \<Rightarrow> TreeParams \<Rightarrow> Polygons \<Rightarrow> SliceDataStorage \<Rightarrow> ModelVolumes" where
  \<comment> \<open>\<open>border\<close> is the result of \<open>calculate_machine_border(storage, params)\<close>\<close>
  "ModelVolumes_ctor E p border storage =
     \<lparr> params = p,
       machine_border = border,
       layer_outlines = map (\<lambda>i. getLayerOutlines E storage i False)
                            [0 ..< length (supportLayers (support storage))],
       collision_cache = Map.empty,
       avoidance_cache = Map.empty,
       internal_model_cache = Map.empty \<rparr>"

definition cache_insert :: "('k \<rightharpoonup> 'v) \<Rightarrow> 'k \<Rightarrow> 'v \<Rightarrow> ('k \<rightharpoonup> 'v) \<times> 'v \<times> bool" where
  \<comment> \<open>\<open>unordered_map::insert\<close>: an existing entry is kept; the flag tells whether the
      value was inserted\<close>
  "cache_insert c k v = (case c k of None \<Rightarrow> (c(k \<mapsto> v), v, True) | Some w \<Rightarrow> (c, w, False))"

definition collision ::
  "extern \<Rightarrow> ModelVolumes \<Rightarrow> coord_t \<Rightarrow> int \<Rightarrow> (Polygons \<times> ModelVolumes) option" where
  "collision E mv radius layer =
     (case collision_cache mv (radius, layer) of
        Some p \<Rightarrow> Some (p, mv)
      | None \<Rightarrow>
          (case at_index (layer_outlines mv) layer of
             None \<Rightarrow> None
           | Some outline \<Rightarrow>
               let collision_areas = unionPolygons E outline (machine_border mv);
                   collision_areas =
                     offset E collision_areas (xy_distance (params mv) + radius) jtRound;
                   (cache, p, inserted) =
                     cache_insert (collision_cache mv) (radius, layer) collision_areas
               in do {
                    _ \<leftarrow> assert_that E inserted;
                    Some (p, mv\<lparr>collision_cache := cache\<rparr>)
                  }))"

partial_function (option) avoidance ::
  "extern \<Rightarrow> ModelVolumes \<Rightarrow> coord_t \<Rightarrow> int \<Rightarrow> (Polygons \<times> ModelVolumes) option" where
  "avoidance E mv radius layer =
     (case avoidance_cache mv (radius, layer) of
        Some p \<Rightarrow> Some (p, mv)
      | None \<Rightarrow>
          if layer = 0 then
            do {
              (c, mv1) \<leftarrow> collision E mv radius 0;
              Some (c, mv1\<lparr>avoidance_cache := (avoidance_cache mv1)((radius, layer) \<mapsto> c)\<rparr>)
            }
          else
            do {
              (below, mv1) \<leftarrow> avoidance E mv radius (layer - 1);
              let avoidance_areas =
                    smooth E (offset E below (- max_move (params mv1)) jtMiter) 5;
              (c, mv2) \<leftarrow> collision E mv1 radius layer;
              let avoidance_areas = unionPolygons E avoidance_areas c;
              let (cache, p, inserted) =
                    cache_insert (avoidance_cache mv2) (radius, layer) avoidance_areas;
              _ \<leftarrow> assert_that E inserted;
              Some (p, mv2\<lparr>avoidance_cache := cache\<rparr>)
            })"

definition internal_model ::
  "extern \<Rightarrow> ModelVolumes \<Rightarrow> coord_t \<Rightarrow> int \<Rightarrow> (Polygons \<times> ModelVolumes) option" where
  "internal_model E mv radius layer =
     (case internal_model_cache mv (radius, layer) of
        Some p \<Rightarrow> Some (p, mv)
      | None \<Rightarrow>
          do {
            (a, mv1) \<leftarrow> avoidance E mv radius layer;
            (c, mv2) \<leftarrow> collision E mv1 radius layer;
            let internal_areas = difference E a c;
            let (cache, p, inserted) =
                  cache_insert (internal_model_cache mv2) (radius, layer) internal_areas;
            _ \<leftarrow> assert_that E inserted;
            Some (p, mv2\<lparr>internal_model_cache := cache\<rparr>)
          })"

section \<open>The tree support generator of namespace \<open>Tree\<close>\<close>









































section \<open>What the specification says about the volumes\<close>

text \<open>
  The specification defines the collision area of a radius and a layer as the layer outline
  united with the machine border and offset by \<open>xy_distance + r\<close> with round joins, and the
  avoidance area by a recurrence over the layers.  \<open>collision_spec\<close> and \<open>avoidance_spec\<close>
  follow these words; the theorems compare them with what the code computes.
\<close>

definition collision_spec :: "extern \<Rightarrow> ModelVolumes \<Rightarrow> coord_t \<Rightarrow> nat \<Rightarrow> Polygons" where
  "collision_spec E mv r z =
     offset E (unionPolygons E (layer_outlines mv ! z) (machine_border mv))
       (xy_distance (params mv) + r) jtRound"

primrec avoidance_spec :: "extern \<Rightarrow> ModelVolumes \<Rightarrow> coord_t \<Rightarrow> nat \<Rightarrow> Polygons" where
  "avoidance_spec E mv r 0 = collision_spec E mv r 0"
| "avoidance_spec E mv r (Suc z) =
     unionPolygons E (smooth E (offset E (avoidance_spec E mv r z) (- max_move (params mv)) jtMiter) 5)
       (collision_spec E mv r (Suc z))"

text \<open>
  \<open>caches_ok\<close> is the invariant of a \<open>ModelVolumes\<close> object: every cached polygon is the one
  the specification gives for its key.  It holds for the object the constructor builds and
  every lookup keeps it.  \<open>caches_grow\<close> says that a later object has the same model and
  every entry of the earlier one, unchanged.
\<close>

definition same_model :: "ModelVolumes \<Rightarrow> ModelVolumes \<Rightarrow> bool" where
  "same_model mv mv' \<longleftrightarrow>
     params mv' = params mv \<and> machine_border mv' = machine_border mv \<and>
     layer_outlines mv' = layer_outlines mv"

definition caches_grow :: "ModelVolumes \<Rightarrow> ModelVolumes \<Rightarrow> bool" where
  "caches_grow mv mv' \<longleftrightarrow>
     same_model mv mv' \<and>
     collision_cache mv \<subseteq>\<^sub>m collision_cache mv' \<and>
     avoidance_cache mv \<subseteq>\<^sub>m avoidance_cache mv' \<and>
     internal_model_cache mv \<subseteq>\<^sub>m internal_model_cache mv'"

definition caches_ok :: "extern \<Rightarrow> ModelVolumes \<Rightarrow> bool" where
  "caches_ok E mv \<longleftrightarrow>
     (\<forall>r z p. collision_cache mv (r, z) = Some p \<longrightarrow>
        0 \<le> z \<and> z < int (length (layer_outlines mv)) \<and> p = collision_spec E mv r (nat z)) \<and>
     (\<forall>r z p. avoidance_cache mv (r, z) = Some p \<longrightarrow>
        0 \<le> z \<and> z < int (length (layer_outlines mv)) \<and> p = avoidance_spec E mv r (nat z)) \<and>
     (\<forall>r z p. internal_model_cache mv (r, z) = Some p \<longrightarrow>
        0 \<le> z \<and> z < int (length (layer_outlines mv)) \<and>
        p = difference E (avoidance_spec E mv r (nat z)) (collision_spec E mv r (nat z)))"


text \<open>
  A client of \<open>ModelVolumes\<close> makes a sequence of lookups; each is one of the three public
  member functions with its arguments.
\<close>

datatype volumes_query = collision_query coord_t int | avoidance_query coord_t int
  | internal_model_query coord_t int

fun volumes_lookup ::
  "extern \<Rightarrow> ModelVolumes \<Rightarrow> volumes_query \<Rightarrow> (Polygons \<times> ModelVolumes) option" where
  "volumes_lookup E mv (collision_query radius layer) = collision E mv radius layer"
| "volumes_lookup E mv (avoidance_query radius layer) = avoidance E mv radius layer"
| "volumes_lookup E mv (internal_model_query radius layer) = internal_model E mv radius layer"

fun volumes_lookups :: "extern \<Rightarrow> ModelVolumes \<Rightarrow> volumes_query list \<Rightarrow> ModelVolumes option" where
  "volumes_lookups E mv [] = Some mv"
| "volumes_lookups E mv (q # qs) =
     (case volumes_lookup E mv q of None \<Rightarrow> None | Some (p, mv') \<Rightarrow> volumes_lookups E mv' qs)"

fun cache_of :: "volumes_query \<Rightarrow> ModelVolumes \<Rightarrow> (RadiusLayerPair \<rightharpoonup> Polygons)" where
  "cache_of (collision_query radius layer) = collision_cache"
| "cache_of (avoidance_query radius layer) = avoidance_cache"
| "cache_of (internal_model_query radius layer) = internal_model_cache"

fun key_of :: "volumes_query \<Rightarrow> RadiusLayerPair" where
  "key_of (collision_query radius layer) = (radius, layer)"
| "key_of (avoidance_query radius layer) = (radius, layer)"
| "key_of (internal_model_query radius layer) = (radius, layer)"

section \<open>Invariants of the working set\<close>








section \<open>Example inputs\<close>

text \<open>
  A small executable instance of the external functions, for the concrete runs below.
  A polygon stands for the axis-aligned box around its vertices.
\<close>

definition lo :: "int list \<Rightarrow> int" where
  "lo xs = fold min xs (hd xs)"

definition hi :: "int list \<Rightarrow> int" where
  "hi xs = fold max xs (hd xs)"

definition box_grow :: "coord_t \<Rightarrow> Polygon \<Rightarrow> Polygons" where
  "box_grow d q =
     (if q = [] then []
      else let x0 = lo (map fst q) - d; x1 = hi (map fst q) + d;
               y0 = lo (map snd q) - d; y1 = hi (map snd q) + d
           in if x1 < x0 \<or> y1 < y0 then [] else [[(x0, y0), (x1, y0), (x1, y1), (x0, y1)]])"

definition box_inside :: "Polygon \<Rightarrow> Point \<Rightarrow> bool \<Rightarrow> bool" where
  "box_inside q p border =
     (q \<noteq> [] \<and>
      (if border
       then lo (map fst q) \<le> fst p \<and> fst p \<le> hi (map fst q) \<and>
            lo (map snd q) \<le> snd p \<and> snd p \<le> hi (map snd q)
       else lo (map fst q) < fst p \<and> fst p < hi (map fst q) \<and>
            lo (map snd q) < snd p \<and> snd p < hi (map snd q)))"

definition example_normal :: "Point \<Rightarrow> coord_t \<Rightarrow> Point" where
  "example_normal p len =
     (if vSize p < 1 then (len, 0) else (cdiv (fst p * len) (vSize p), cdiv (snd p * len) (vSize p)))"

definition example_extern :: extern where
  "example_extern =
     \<lparr> offset = (\<lambda>p d j. concat (map (box_grow d) p)),
       unionPolygons = (\<lambda>a b. a @ b),
       unionSelf = (\<lambda>a. a),
       difference = (\<lambda>a b. filter (\<lambda>q. q \<notin> set b) a),
       intersection = (\<lambda>a b. filter (\<lambda>q. q \<in> set b) a),
       smooth = (\<lambda>p n. p),
       simplify = (\<lambda>p a b. p),
       splitIntoParts = (\<lambda>p. map (\<lambda>q. [q]) p),
       inside = (\<lambda>ps p border. list_ex (\<lambda>q. box_inside q p border) ps),
       findClosest = (\<lambda>p ps. p),
       moveInside = (\<lambda>ps p d m. p),
       moveOutside = (\<lambda>ps p d m. p),
       ensureInsideOrOutside = (\<lambda>ps p c d. p),
       normal = example_normal,
       rotate = (\<lambda>p a. p),
       aabb_of = (\<lambda>q. \<lparr> aabb_min = (lo (map fst q), lo (map snd q)),
                          aabb_max = (hi (map fst q), hi (map snd q)) \<rparr>),
       aabb_include = (\<lambda>b p. case b of
            None \<Rightarrow> \<lparr> aabb_min = p, aabb_max = p \<rparr>
          | Some b \<Rightarrow> \<lparr> aabb_min = (min (fst (aabb_min b)) (fst p), min (snd (aabb_min b)) (snd p)),
                         aabb_max = (max (fst (aabb_max b)) (fst p), max (snd (aabb_max b)) (snd p)) \<rparr>),
       aabb_expand = (\<lambda>b d. \<lparr> aabb_min = (fst (aabb_min b) - d, snd (aabb_min b) - d),
                               aabb_max = (fst (aabb_max b) + d, snd (aabb_max b) + d) \<rparr>),
       aabb_contains = (\<lambda>b p. fst (aabb_min b) \<le> fst p \<and> fst p \<le> fst (aabb_max b) \<and>
                                snd (aabb_min b) \<le> snd p \<and> snd p \<le> snd (aabb_max b)),
       aabb_getMiddle = (\<lambda>b. (cdiv (fst (aabb_min b) + fst (aabb_max b)) 2,
                                cdiv (snd (aabb_min b) + snd (aabb_max b)) 2)),
       adjacentNodes = (\<lambda>ps p. []),
       getLayerOutlines = (\<lambda>st layer_nr helpers. [[(0, 0), (10, 0), (10, 10), (0, 10)]]),
       tan_double = tan,
       sin_double = sin,
       cos_double = cos,
       round_to_double = (\<lambda>x. x),
       cast_out_of_range = (\<lambda>x. 2 ^ 63),
       NDEBUG = False \<rparr>"

text \<open>
  The C library returns 16331239353195370 for the tangent of the double nearest to \<open>pi / 2\<close>.
\<close>

definition right_angle_extern :: extern where
  "right_angle_extern = example_extern\<lparr> tan_double := (\<lambda>x. 16331239353195370) \<rparr>"

definition example_params :: TreeParams where
  "example_params =
     \<lparr> branch_radius = 1000, radius_sample_resolution = 100, layer_height = 200,
       xy_distance = 700, max_move = 10, radius_increment = 5, point_spread = 1000,
       z_gap = 0, support_roof_layers = 0, support_angle = 0, initial_radius = 0,
       can_support_on_model = True, buildplate_shape = RECTANGULAR, adhesion_type = NONE,
       brim_size = 0, raft_margin = 0, skirt_size = 0, line_width = 400, wall_count = 1 \<rparr>"

definition example_settings :: Settings where
  "example_settings =
     \<lparr> get_support_tree_enable = True, get_layer_height = 200, get_support_tree_angle = 0,
       get_support_tree_branch_diameter = 2000, get_support_tree_branch_diameter_angle = 0,
       get_support_tree_collision_resolution = 100, get_support_tree_branch_distance = 1000,
       get_support_tree_wall_count = 1, get_support_xy_distance = 700,
       get_support_type = EVERYWHERE, get_support_top_distance = 0,
       get_support_bottom_distance = 0, get_support_roof_enable = False,
       get_support_roof_height = 0, get_support_angle = 0, get_support_line_width = 400,
       get_support_bottom_enable = False, get_support_interface_skip_height = 200,
       get_support_bottom_height = 0, get_machine_shape = RECTANGULAR,
       get_adhesion_type = NONE, get_initial_layer_line_width_factor = 1,
       get_skirt_brim_line_width = 400, get_brim_line_count = 0, get_raft_margin = 0,
       get_skirt_gap = 0, get_skirt_line_count = 0 \<rparr>"

definition empty_layer :: SupportLayer where
  "empty_layer = \<lparr> support_infill_parts = [], support_roof = [], support_bottom = [] \<rparr>"

definition example_storage :: SliceDataStorage where
  "example_storage =
     \<lparr> meshes = [],
       support = \<lparr> generated = False, layer_nr_max_filled_layer = - 1,
                   supportLayers = [empty_layer, empty_layer, empty_layer] \<rparr> \<rparr>"

definition example_volumes :: ModelVolumes where
  "example_volumes = ModelVolumes_ctor example_extern example_params [] example_storage"






section \<open>Verified properties\<close>

lemma caches_grow_refl: "caches_grow mv mv"
  by (simp add: caches_grow_def same_model_def)

lemma caches_grow_trans: "caches_grow a b \<Longrightarrow> caches_grow b c \<Longrightarrow> caches_grow a c"
  by (auto simp: caches_grow_def same_model_def intro: map_le_trans)

lemma collision_grows:
  assumes "collision E mv r z = Some (p, mv')"
  shows "caches_grow mv mv' \<and> collision_cache mv' (r, z) = Some p"
  using assms
  by (auto simp: collision_def cache_insert_def assert_that_def caches_grow_def same_model_def
      map_le_def Let_def split: option.splits if_splits)

lemma avoidance_grows_aux:
  assumes "avoidance E mv r z = Some res"
  shows "caches_grow mv (snd res) \<and> avoidance_cache (snd res) (r, z) = Some (fst res)"
proof (rule avoidance.raw_induct[where P="\<lambda>E mv r z res. caches_grow mv (snd res) \<and> avoidance_cache (snd res) (r, z) = Some (fst res)", OF _ assms])
  fix av :: "extern \<Rightarrow> ModelVolumes \<Rightarrow> coord_t \<Rightarrow> int \<Rightarrow> (Polygons \<times> ModelVolumes) option" and E mv r z res
  assume IH: "\<And>E mv r z res. av E mv r z = Some res \<Longrightarrow>
                 caches_grow mv (snd res) \<and> avoidance_cache (snd res) (r, z) = Some (fst res)"
  assume body: "(case avoidance_cache mv (r, z) of
        Some p \<Rightarrow> Some (p, mv)
      | None \<Rightarrow>
          if z = 0 then
            do {
              (c, mv1) \<leftarrow> collision E mv r 0;
              Some (c, mv1\<lparr>avoidance_cache := (avoidance_cache mv1)((r, z) \<mapsto> c)\<rparr>)
            }
          else
            do {
              (below, mv1) \<leftarrow> av E mv r (z - 1);
              let avoidance_areas =
                    smooth E (offset E below (- max_move (params mv1)) jtMiter) 5;
              (c, mv2) \<leftarrow> collision E mv1 r z;
              let avoidance_areas = unionPolygons E avoidance_areas c;
              let (cache, p, inserted) =
                    cache_insert (avoidance_cache mv2) (r, z) avoidance_areas;
              _ \<leftarrow> assert_that E inserted;
              Some (p, mv2\<lparr>avoidance_cache := cache\<rparr>)
            }) = Some res"
  obtain p mv' where res: "res = (p, mv')" by (cases res)
  show "caches_grow mv (snd res) \<and> avoidance_cache (snd res) (r, z) = Some (fst res)"
  proof (cases "avoidance_cache mv (r, z)")
    case (Some q)
    with body res show ?thesis by (auto simp add: caches_grow_refl)
  next
    case None
    show ?thesis
    proof (cases "z = 0")
      case True
      with None body res obtain mv1 where c: "collision E mv r 0 = Some (p, mv1)"
        and mv': "mv' = mv1\<lparr>avoidance_cache := (avoidance_cache mv1)((r, z) \<mapsto> p)\<rparr>"
        by (auto split: Option.bind_splits)
      from collision_grows[OF c] have g: "caches_grow mv mv1" by simp
      have "avoidance_cache mv1 = avoidance_cache mv"
        using c by (auto simp: collision_def cache_insert_def assert_that_def Let_def split: option.splits if_splits)
      with None have "caches_grow mv1 mv'"
        by (auto simp: mv' caches_grow_def same_model_def map_le_def)
      with g mv' res show ?thesis by (auto intro: caches_grow_trans)
    next
      case False
      with None body res obtain below mv1 c mv2 where
        a: "av E mv r (z - 1) = Some (below, mv1)"
        and c: "collision E mv1 r z = Some (c, mv2)"
        and r: "(case cache_insert (avoidance_cache mv2) (r, z)
                   (unionPolygons E (smooth E (offset E below (- max_move (params mv1)) jtMiter) 5) c) of
                 (cache, p', inserted) \<Rightarrow> do { _ \<leftarrow> assert_that E inserted; Some (p', mv2\<lparr>avoidance_cache := cache\<rparr>) }) = Some (p, mv')"
        by (auto simp: Let_def split: Option.bind_splits)
      from IH[OF a] have g1: "caches_grow mv mv1" by simp
      from collision_grows[OF c] have g2: "caches_grow mv1 mv2" by simp
      from r have "caches_grow mv2 mv' \<and> avoidance_cache mv' (r, z) = Some p"
        by (auto simp: cache_insert_def assert_that_def caches_grow_def same_model_def map_le_def
            split: option.splits if_splits Option.bind_splits)
      with g1 g2 res show ?thesis by (auto intro: caches_grow_trans)
    qed
  qed
qed

lemma avoidance_grows:
  assumes "avoidance E mv r z = Some (p, mv')"
  shows "caches_grow mv mv' \<and> avoidance_cache mv' (r, z) = Some p"
  using avoidance_grows_aux[OF assms] by simp

lemma internal_model_grows:
  assumes "internal_model E mv r z = Some (p, mv')"
  shows "caches_grow mv mv' \<and> internal_model_cache mv' (r, z) = Some p"
proof (cases "internal_model_cache mv (r, z)")
  case (Some q)
  with assms show ?thesis by (auto simp: internal_model_def caches_grow_refl)
next
  case None
  with assms obtain a mv1 c mv2 where
    a: "avoidance E mv r z = Some (a, mv1)" and c: "collision E mv1 r z = Some (c, mv2)"
    and r: "(case cache_insert (internal_model_cache mv2) (r, z) (difference E a c) of
               (cache, p', inserted) \<Rightarrow> do { _ \<leftarrow> assert_that E inserted; Some (p', mv2\<lparr>internal_model_cache := cache\<rparr>) }) = Some (p, mv')"
    by (auto simp: internal_model_def Let_def split: Option.bind_splits)
  from r have "caches_grow mv2 mv' \<and> internal_model_cache mv' (r, z) = Some p"
    by (auto simp: cache_insert_def assert_that_def caches_grow_def same_model_def map_le_def
        split: option.splits if_splits Option.bind_splits)
  with avoidance_grows[OF a] collision_grows[OF c] show ?thesis
    by (auto intro: caches_grow_trans)
qed

lemma collision_hit: "collision_cache mv (r, z) = Some p \<Longrightarrow> collision E mv r z = Some (p, mv)"
  by (simp add: collision_def)

lemma avoidance_hit: "avoidance_cache mv (r, z) = Some p \<Longrightarrow> avoidance E mv r z = Some (p, mv)"
  by (subst avoidance.simps) simp

lemma internal_model_hit:
  "internal_model_cache mv (r, z) = Some p \<Longrightarrow> internal_model E mv r z = Some (p, mv)"
  by (simp add: internal_model_def)

lemma collision_spec_same: "same_model mv mv' \<Longrightarrow> collision_spec E mv' = collision_spec E mv"
  by (auto simp: same_model_def collision_spec_def fun_eq_iff)

lemma avoidance_spec_same:
  assumes "same_model mv mv'" shows "avoidance_spec E mv' r z = avoidance_spec E mv r z"
proof (induction z)
  case 0 then show ?case by (simp add: collision_spec_same[OF assms])
next
  case (Suc z) then show ?case using assms by (simp add: collision_spec_same[OF assms] same_model_def)
qed

lemma same_model_trans: "same_model a b \<Longrightarrow> same_model b c \<Longrightarrow> same_model a c"
  by (simp add: same_model_def)

lemma caches_ok_ctor: "caches_ok E (ModelVolumes_ctor E p border storage)"
  by (simp add: caches_ok_def ModelVolumes_ctor_def)

lemma collision_spec_upd [simp]:
  "collision_spec E (mv\<lparr>collision_cache := c\<rparr>) = collision_spec E mv"
  "collision_spec E (mv\<lparr>avoidance_cache := c\<rparr>) = collision_spec E mv"
  "collision_spec E (mv\<lparr>internal_model_cache := c\<rparr>) = collision_spec E mv"
  by (simp_all add: collision_spec_def fun_eq_iff)

lemma avoidance_spec_upd [simp]:
  "avoidance_spec E (mv\<lparr>collision_cache := c\<rparr>) r z = avoidance_spec E mv r z"
  "avoidance_spec E (mv\<lparr>avoidance_cache := c\<rparr>) r z = avoidance_spec E mv r z"
  "avoidance_spec E (mv\<lparr>internal_model_cache := c\<rparr>) r z = avoidance_spec E mv r z"
proof -
  show "avoidance_spec E (mv\<lparr>collision_cache := c\<rparr>) r z = avoidance_spec E mv r z"
    by (induction z) simp_all
  show "avoidance_spec E (mv\<lparr>avoidance_cache := c\<rparr>) r z = avoidance_spec E mv r z"
    by (induction z) simp_all
  show "avoidance_spec E (mv\<lparr>internal_model_cache := c\<rparr>) r z = avoidance_spec E mv r z"
    by (induction z) simp_all
qed

lemma caches_ok_collision_upd:
  assumes "caches_ok E mv" "0 \<le> z" "z < int (length (layer_outlines mv))"
  shows "caches_ok E (mv\<lparr>collision_cache := (collision_cache mv)((r, z) \<mapsto> collision_spec E mv r (nat z))\<rparr>)"
  using assms unfolding caches_ok_def by simp

lemma caches_ok_avoidance_upd:
  assumes "caches_ok E mv" "0 \<le> z" "z < int (length (layer_outlines mv))"
  shows "caches_ok E (mv\<lparr>avoidance_cache := (avoidance_cache mv)((r, z) \<mapsto> avoidance_spec E mv r (nat z))\<rparr>)"
  using assms unfolding caches_ok_def by simp

lemma caches_ok_internal_upd:
  assumes "caches_ok E mv" "0 \<le> z" "z < int (length (layer_outlines mv))"
  shows "caches_ok E (mv\<lparr>internal_model_cache := (internal_model_cache mv)((r, z) \<mapsto>
           difference E (avoidance_spec E mv r (nat z)) (collision_spec E mv r (nat z)))\<rparr>)"
  using assms unfolding caches_ok_def by simp

lemma collision_total:
  assumes ok: "caches_ok E mv" and z: "0 \<le> z" "z < int (length (layer_outlines mv))"
  shows "\<exists>mv'. collision E mv r z = Some (collision_spec E mv r (nat z), mv') \<and>
           caches_ok E mv' \<and> same_model mv mv'"
proof (cases "collision_cache mv (r, z)")
  case (Some p)
  with ok have "p = collision_spec E mv r (nat z)" unfolding caches_ok_def by blast
  with Some ok show ?thesis by (auto simp: collision_hit same_model_def)
next
  case None
  let ?p = "collision_spec E mv r (nat z)"
  let ?mv = "mv\<lparr>collision_cache := (collision_cache mv)((r, z) \<mapsto> ?p)\<rparr>"
  have c: "collision E mv r z = Some (?p, ?mv)"
    using None z
    by (simp add: collision_def at_index_def cache_insert_def assert_that_def collision_spec_def Let_def)
  have sm: "same_model mv ?mv" by (simp add: same_model_def)
  from c sm caches_ok_collision_upd[OF ok z] show ?thesis by blast
qed

lemma collision_avoidance_cache:
  "collision E mv r z = Some (p, mv') \<Longrightarrow> avoidance_cache mv' = avoidance_cache mv"
  by (auto simp: collision_def cache_insert_def assert_that_def Let_def
      split: option.splits if_splits)

lemma caches_ok_same:
  assumes "same_model mv mv1" "caches_ok E mv1"
  shows "collision_spec E mv1 = collision_spec E mv" "avoidance_spec E mv1 r n = avoidance_spec E mv r n"
    "layer_outlines mv1 = layer_outlines mv" "params mv1 = params mv"
  using assms collision_spec_same[OF assms(1)] avoidance_spec_same[OF assms(1)]
  by (simp_all add: same_model_def)

lemma avoidance_total:
  assumes ok: "caches_ok E mv" and z: "n < length (layer_outlines mv)"
  shows "\<exists>mv'. avoidance E mv r (int n) = Some (avoidance_spec E mv r n, mv') \<and>
           caches_ok E mv' \<and> same_model mv mv' \<and>
           (\<forall>r' z'. int n < z' \<longrightarrow> avoidance_cache mv' (r', z') = avoidance_cache mv (r', z'))"
  using assms
proof (induction n arbitrary: mv)
  case 0
  show ?case
  proof (cases "avoidance_cache mv (r, 0)")
    case (Some p)
    with "0.prems"(1) have "p = avoidance_spec E mv r (nat 0)" unfolding caches_ok_def by blast
    with Some "0.prems"(1) show ?thesis using avoidance_hit[OF Some, of E] by (simp add: same_model_def)
  next
    case None
    from collision_total[OF "0.prems"(1), of 0 r] "0.prems"(2)
    obtain mv1 where c: "collision E mv r 0 = Some (collision_spec E mv r 0, mv1)"
      and ok1: "caches_ok E mv1" and sm1: "same_model mv mv1" by auto
    let ?p = "collision_spec E mv r 0"
    let ?mv = "mv1\<lparr>avoidance_cache := (avoidance_cache mv1)((r, 0) \<mapsto> ?p)\<rparr>"
    have a: "avoidance E mv r (int 0) = Some (?p, ?mv)"
      using None c by (subst avoidance.simps) simp
    have sm: "same_model mv ?mv" using sm1 by (simp add: same_model_def)
    have "0 < int (length (layer_outlines mv1))" using "0.prems"(2) caches_ok_same(3)[OF sm1 ok1] by simp
    from caches_ok_avoidance_upd[OF ok1 _ this, of r]
    have "caches_ok E ?mv" using caches_ok_same(1)[OF sm1 ok1] by simp
    moreover have "\<forall>r' z'. int 0 < z' \<longrightarrow> avoidance_cache ?mv (r', z') = avoidance_cache mv (r', z')"
      using collision_avoidance_cache[OF c] by simp
    ultimately show ?thesis using a sm by simp
  qed
next
  case (Suc n)
  let ?z = "int (Suc n)"
  have nz: "nat ?z = Suc n" by simp
  show ?case
  proof (cases "avoidance_cache mv (r, ?z)")
    case (Some p)
    with Suc.prems(1) have "p = avoidance_spec E mv r (nat ?z)"
      unfolding caches_ok_def by blast
    then have "p = avoidance_spec E mv r (Suc n)" unfolding nz .
    with Suc.prems(1) show ?thesis
      using avoidance_hit[OF Some, of E] by (simp add: same_model_def del: of_nat_Suc avoidance_spec.simps)
  next
    case None
    from Suc.IH[OF Suc.prems(1)] Suc.prems(2)
    obtain mv1 where a1: "avoidance E mv r (int n) = Some (avoidance_spec E mv r n, mv1)"
      and ok1: "caches_ok E mv1" and sm1: "same_model mv mv1"
      and fr1: "\<forall>r' z'. int n < z' \<longrightarrow> avoidance_cache mv1 (r', z') = avoidance_cache mv (r', z')"
      by auto
    have len1: "layer_outlines mv1 = layer_outlines mv" using sm1 by (simp add: same_model_def)
    have zr: "0 \<le> ?z" "?z < int (length (layer_outlines mv1))" using Suc.prems(2) len1 by simp_all
    from collision_total[OF ok1 zr, of r]
    obtain mv2 where c: "collision E mv1 r ?z = Some (collision_spec E mv1 r (Suc n), mv2)"
      and ok2: "caches_ok E mv2" and sm2: "same_model mv1 mv2" unfolding nz by auto
    have cs: "collision_spec E mv1 = collision_spec E mv" by (rule collision_spec_same[OF sm1])
    have ac2: "avoidance_cache mv2 = avoidance_cache mv1" by (rule collision_avoidance_cache[OF c])
    have "int n < ?z" by simp
    with fr1 have "avoidance_cache mv1 (r, ?z) = avoidance_cache mv (r, ?z)" by blast
    with None ac2 have av2: "avoidance_cache mv2 (r, ?z) = None" by simp
    let ?p = "avoidance_spec E mv r (Suc n)"
    let ?mv = "mv2\<lparr>avoidance_cache := (avoidance_cache mv2)((r, ?z) \<mapsto> ?p)\<rparr>"
    have pm: "params mv1 = params mv" using sm1 by (simp add: same_model_def)
    have z1: "?z - 1 = int n" by simp
    have zn: "?z \<noteq> 0" by simp
    have a: "avoidance E mv r ?z = Some (?p, ?mv)"
      apply (subst avoidance.simps)
      apply (simp only: None option.case zn if_False z1 a1 bind.bind_lunit prod.case Let_def c av2
               cache_insert_def assert_that_def cs pm avoidance_spec.simps)
      apply (simp del: of_nat_Suc)
      done
    have sm12: "same_model mv mv2" using sm1 sm2 by (rule same_model_trans)
    have sm: "same_model mv ?mv" using sm12 by (simp add: same_model_def)
    have zr2: "?z < int (length (layer_outlines mv2))" using zr(2) sm2 by (simp add: same_model_def)
    from caches_ok_avoidance_upd[OF ok2 zr(1) zr2, of r]
    have "caches_ok E ?mv" unfolding nz avoidance_spec_same[OF sm12] .
    moreover have "\<forall>r' z'. ?z < z' \<longrightarrow> avoidance_cache ?mv (r', z') = avoidance_cache mv (r', z')"
    proof (intro allI impI)
      fix r' z' assume h: "?z < z'"
      then have "int n < z'" by simp
      with fr1 have "avoidance_cache mv1 (r', z') = avoidance_cache mv (r', z')" by blast
      with h ac2 show "avoidance_cache ?mv (r', z') = avoidance_cache mv (r', z')" by simp
    qed
    ultimately show ?thesis using a sm by blast
  qed
qed

lemma collisionAreas_nth:
  assumes "rs < n_samples" "z < length (supportLayers (support storage))"
  shows "collisionAreas E border s storage n_samples ! rs ! z =
           offset E (unionPolygons E (getLayerOutlines E storage z False) border)
             (get_support_xy_distance s + int rs * get_support_tree_collision_resolution s) jtRound"
  using assms by (simp add: collisionAreas_def Let_def)






lemma volumes_lookup_grows:
  "volumes_lookup E mv q = Some (p, mv') \<Longrightarrow> caches_grow mv mv' \<and> cache_of q mv' (key_of q) = Some p"
  by (cases q) (simp_all add: collision_grows avoidance_grows internal_model_grows)

lemma volumes_lookup_hit:
  "cache_of q mv (key_of q) = Some p \<Longrightarrow> volumes_lookup E mv q = Some (p, mv)"
  by (cases q) (simp_all add: collision_hit avoidance_hit internal_model_hit)

lemma volumes_lookups_grow:
  "volumes_lookups E mv qs = Some mv' \<Longrightarrow> caches_grow mv mv'"
proof (induction qs arbitrary: mv)
  case Nil then show ?case by (simp add: caches_grow_refl)
next
  case (Cons q qs)
  then obtain p mv1 where 1: "volumes_lookup E mv q = Some (p, mv1)" and 2: "volumes_lookups E mv1 qs = Some mv'"
    by (auto split: option.splits)
  from volumes_lookup_grows[OF 1] Cons.IH[OF 2] show ?case by (blast intro: caches_grow_trans)
qed

lemma cache_of_grow:
  "caches_grow mv mv' \<Longrightarrow> cache_of q mv k = Some p \<Longrightarrow> cache_of q mv' k = Some p"
  by (cases q; cases k) (auto simp: caches_grow_def map_le_def dom_def)

lemma example_extern_sel:
  "offset example_extern = (\<lambda>p d j. concat (map (box_grow d) p))"
  "unionPolygons example_extern = (\<lambda>a b. a @ b)"
  "unionSelf example_extern = (\<lambda>a. a)"
  "difference example_extern = (\<lambda>a b. filter (\<lambda>q. q \<notin> set b) a)"
  "intersection example_extern = (\<lambda>a b. filter (\<lambda>q. q \<in> set b) a)"
  "smooth example_extern = (\<lambda>p n. p)"
  "simplify example_extern = (\<lambda>p a b. p)"
  "splitIntoParts example_extern = (\<lambda>p. map (\<lambda>q. [q]) p)"
  "inside example_extern = (\<lambda>ps p border. list_ex (\<lambda>q. box_inside q p border) ps)"
  "findClosest example_extern = (\<lambda>p ps. p)"
  "moveInside example_extern = (\<lambda>ps p d m. p)"
  "moveOutside example_extern = (\<lambda>ps p d m. p)"
  "ensureInsideOrOutside example_extern = (\<lambda>ps p c d. p)"
  "normal example_extern = example_normal"
  "rotate example_extern = (\<lambda>p a. p)"
  "adjacentNodes example_extern = (\<lambda>ps p. [])"
  "getLayerOutlines example_extern = (\<lambda>st layer_nr helpers. [[(0, 0), (10, 0), (10, 10), (0, 10)]])"
  "tan_double example_extern = tan"
  "sin_double example_extern = sin"
  "cos_double example_extern = cos"
  "round_to_double example_extern = (\<lambda>x. x)"
  "cast_out_of_range example_extern = (\<lambda>x. 2 ^ 63)"
  "NDEBUG example_extern = False"
  by (simp_all add: example_extern_def)

lemma collision_internal_cache:
  "collision E mv r z = Some (p, mv') \<Longrightarrow> internal_model_cache mv' = internal_model_cache mv"
  by (auto simp: collision_def cache_insert_def assert_that_def Let_def
      split: option.splits if_splits)

lemma avoidance_internal_cache_aux:
  assumes "avoidance E mv r z = Some res"
  shows "internal_model_cache (snd res) = internal_model_cache mv"
proof (rule avoidance.raw_induct[where P="\<lambda>E mv r z res. internal_model_cache (snd res) = internal_model_cache mv", OF _ assms])
  fix av :: "extern \<Rightarrow> ModelVolumes \<Rightarrow> coord_t \<Rightarrow> int \<Rightarrow> (Polygons \<times> ModelVolumes) option"
    and E mv r z res
  assume IH: "\<And>E mv r z res. av E mv r z = Some res \<Longrightarrow>
                 internal_model_cache (snd res) = internal_model_cache mv"
  assume body: "(case avoidance_cache mv (r, z) of
        Some p \<Rightarrow> Some (p, mv)
      | None \<Rightarrow>
          if z = 0 then
            do {
              (c, mv1) \<leftarrow> collision E mv r 0;
              Some (c, mv1\<lparr>avoidance_cache := (avoidance_cache mv1)((r, z) \<mapsto> c)\<rparr>)
            }
          else
            do {
              (below, mv1) \<leftarrow> av E mv r (z - 1);
              let avoidance_areas =
                    smooth E (offset E below (- max_move (params mv1)) jtMiter) 5;
              (c, mv2) \<leftarrow> collision E mv1 r z;
              let avoidance_areas = unionPolygons E avoidance_areas c;
              let (cache, p, inserted) =
                    cache_insert (avoidance_cache mv2) (r, z) avoidance_areas;
              _ \<leftarrow> assert_that E inserted;
              Some (p, mv2\<lparr>avoidance_cache := cache\<rparr>)
            }) = Some res"
  show "internal_model_cache (snd res) = internal_model_cache mv"
  proof (cases "avoidance_cache mv (r, z)")
    case (Some q)
    with body show ?thesis by auto
  next
    case None
    show ?thesis
    proof (cases "z = 0")
      case True
      with None body show ?thesis
        by (auto split: Option.bind_splits dest: collision_internal_cache)
    next
      case False
      with None body obtain below mv1 c mv2 where
        a: "av E mv r (z - 1) = Some (below, mv1)"
        and c: "collision E mv1 r z = Some (c, mv2)"
        and r: "internal_model_cache (snd res) = internal_model_cache mv2"
        by (auto simp: Let_def cache_insert_def split: Option.bind_splits option.splits)
      from IH[OF a] collision_internal_cache[OF c] r show ?thesis by simp
    qed
  qed
qed

lemma avoidance_internal_cache:
  "avoidance E mv r z = Some (p, mv') \<Longrightarrow> internal_model_cache mv' = internal_model_cache mv"
  using avoidance_internal_cache_aux[of E mv r z "(p, mv')"] by simp

lemma internal_model_total:
  assumes ok: "caches_ok E mv" and z: "n < length (layer_outlines mv)"
  shows "\<exists>mv'. internal_model E mv r (int n) =
              Some (difference E (avoidance_spec E mv r n) (collision_spec E mv r n), mv') \<and>
           caches_ok E mv' \<and> same_model mv mv'"
proof (cases "internal_model_cache mv (r, int n)")
  case (Some p)
  with ok have "p = difference E (avoidance_spec E mv r (nat (int n))) (collision_spec E mv r (nat (int n)))"
    unfolding caches_ok_def by blast
  with ok show ?thesis using internal_model_hit[OF Some, of E] by (simp add: same_model_def)
next
  case None
  from avoidance_total[OF ok z, of r]
  obtain mv1 where a: "avoidance E mv r (int n) = Some (avoidance_spec E mv r n, mv1)"
    and ok1: "caches_ok E mv1" and sm1: "same_model mv mv1" by blast
  have zr: "0 \<le> int n" "int n < int (length (layer_outlines mv1))"
    using z sm1 by (simp_all add: same_model_def)
  from collision_total[OF ok1 zr, of r]
  obtain mv2 where c: "collision E mv1 r (int n) = Some (collision_spec E mv1 r n, mv2)"
    and ok2: "caches_ok E mv2" and sm2: "same_model mv1 mv2" by auto
  have sm12: "same_model mv mv2" using sm1 sm2 by (rule same_model_trans)
  have i2: "internal_model_cache mv2 (r, int n) = None"
    using None avoidance_internal_cache[OF a] collision_internal_cache[OF c]
    by simp
  let ?p = "difference E (avoidance_spec E mv r n) (collision_spec E mv r n)"
  let ?mv = "mv2\<lparr>internal_model_cache := (internal_model_cache mv2)((r, int n) \<mapsto> ?p)\<rparr>"
  have r: "internal_model E mv r (int n) = Some (?p, ?mv)"
    using None a c i2 collision_spec_same[OF sm1, of E]
    by (simp add: internal_model_def cache_insert_def assert_that_def Let_def)
  have zr2: "int n < int (length (layer_outlines mv2))" using zr(2) sm2 by (simp add: same_model_def)
  from caches_ok_internal_upd[OF ok2 zr(1) zr2, of r]
  have "caches_ok E ?mv"
    using avoidance_spec_same[OF sm12, of E r n] collision_spec_same[OF sm12, of E] by simp
  moreover have "same_model mv ?mv" using sm12 by (simp add: same_model_def)
  ultimately show ?thesis using r by blast
qed










lemma take_update_ge: "s \<le> i \<Longrightarrow> take s (trees[i := x]) = take s trees"
  by simp



























text \<open>
  Claim C2.  For every radius and layer, the collision area is the layer outline (without
  helper parts, so without support) united with the machine border and offset outward by
  \<open>xy_distance + r\<close> with round joins: \<open>ModelVolumes::collision\<close> returns it for every
  layer of the model, and \<open>TreeSupport::collisionAreas\<close> stores it for every radius sample
  (of radius \<open>sample * resolution\<close>) and layer.
\<close>

theorem collision_is_offset_union:
  assumes "caches_ok E mv" and "0 \<le> z" and "z < int (length (layer_outlines mv))"
    and "rs < n_samples" and "l < length (supportLayers (support storage))"
  shows "(\<exists>mv'. collision E mv r z =
                  Some (offset E (unionPolygons E (layer_outlines mv ! nat z) (machine_border mv))
                          (xy_distance (params mv) + r) jtRound, mv') \<and>
                caches_ok E mv') \<and>
         collisionAreas E border s storage n_samples ! rs ! l =
           offset E (unionPolygons E (getLayerOutlines E storage l False) border)
             (get_support_xy_distance s + int rs * get_support_tree_collision_resolution s) jtRound \<and>
         layer_outlines (ModelVolumes_ctor E p border storage) ! l = getLayerOutlines E storage l False"
proof -
  from collision_total[OF assms(1,2,3), of r]
  have "\<exists>mv'. collision E mv r z =
                  Some (offset E (unionPolygons E (layer_outlines mv ! nat z) (machine_border mv))
                          (xy_distance (params mv) + r) jtRound, mv') \<and>
                caches_ok E mv'"
    unfolding collision_spec_def by blast
  moreover have "layer_outlines (ModelVolumes_ctor E p border storage) ! l = getLayerOutlines E storage l False"
    using assms(5) by (simp add: ModelVolumes_ctor_def)
  ultimately show ?thesis using collisionAreas_nth[OF assms(4,5)] by simp
qed

theorem collision_is_offset_union_witness:
  "caches_ok example_extern example_volumes \<and>
   (\<exists>mv'. collision example_extern example_volumes 300 2 =
      Some ([[(- 1000, - 1000), (1010, - 1000), (1010, 1010), (- 1000, 1010)]], mv')) \<and>
   collisionAreas example_extern [] example_settings example_storage 4 ! 3 ! 2 =
      [[(- 1000, - 1000), (1010, - 1000), (1010, 1010), (- 1000, 1010)]]"
proof -
  have ok: "caches_ok example_extern example_volumes"
    unfolding example_volumes_def by (rule caches_ok_ctor)
  have len: "(2::int) < int (length (layer_outlines example_volumes))"
    by (simp add: example_volumes_def ModelVolumes_ctor_def example_storage_def)
  have l: "2 < length (supportLayers (support example_storage))"
    by (simp add: example_storage_def)
  have three: "[0..<3] = [0, 1, 2]" by (simp add: upt_rec)
  have v1: "offset example_extern
              (unionPolygons example_extern (layer_outlines example_volumes ! nat 2)
                 (machine_border example_volumes))
              (xy_distance (params example_volumes) + 300) jtRound =
            [[(- 1000, - 1000), (1010, - 1000), (1010, 1010), (- 1000, 1010)]]"
    by (simp add: example_volumes_def ModelVolumes_ctor_def example_storage_def three
        example_extern_sel example_params_def box_grow_def lo_def hi_def)
  have v2: "offset example_extern
              (unionPolygons example_extern (getLayerOutlines example_extern example_storage 2 False) [])
              (get_support_xy_distance example_settings +
               int 3 * get_support_tree_collision_resolution example_settings) jtRound =
            [[(- 1000, - 1000), (1010, - 1000), (1010, 1010), (- 1000, 1010)]]"
    by (simp add: example_extern_sel example_settings_def box_grow_def lo_def hi_def)
  from collision_is_offset_union[OF ok _ len _ l, of 3 4 300 "[]" example_settings example_params]
  show ?thesis unfolding v1 v2 using ok by auto
qed

text \<open>
  Claim C8.  Lookups in \<open>ModelVolumes\<close> are referentially transparent.  Whatever lookups
  come between them, a second call of \<open>collision\<close>, \<open>avoidance\<close> or \<open>internal_model\<close> with
  the arguments of an earlier call returns the polygons the earlier call returned and leaves
  the object as it is; and every entry of the three caches is still there, with the same
  value, after any sequence of lookups.
\<close>

theorem lookups_referentially_transparent:
  assumes "volumes_lookup E mv q = Some (p, mv1)" and "volumes_lookups E mv1 qs = Some mv2"
  shows "volumes_lookup E mv2 q = Some (p, mv2) \<and>
         collision_cache mv1 \<subseteq>\<^sub>m collision_cache mv2 \<and>
         avoidance_cache mv1 \<subseteq>\<^sub>m avoidance_cache mv2 \<and>
         internal_model_cache mv1 \<subseteq>\<^sub>m internal_model_cache mv2"
proof -
  from volumes_lookup_grows[OF assms(1)] have c: "cache_of q mv1 (key_of q) = Some p" by simp
  from volumes_lookups_grow[OF assms(2)] have g: "caches_grow mv1 mv2" .
  from cache_of_grow[OF g c] have "volumes_lookup E mv2 q = Some (p, mv2)" by (rule volumes_lookup_hit)
  with g show ?thesis by (simp add: caches_grow_def)
qed

theorem lookups_referentially_transparent_witness:
  "\<exists>p mv1 mv2.
     volumes_lookup example_extern example_volumes (avoidance_query 0 1) = Some (p, mv1) \<and>
     volumes_lookups example_extern mv1 [collision_query 100 0, internal_model_query 0 2] = Some mv2 \<and>
     volumes_lookup example_extern mv2 (avoidance_query 0 1) = Some (p, mv2) \<and>
     avoidance_cache mv1 \<subseteq>\<^sub>m avoidance_cache mv2"
proof -
  let ?E = example_extern
  have ok: "caches_ok ?E example_volumes"
    unfolding example_volumes_def by (rule caches_ok_ctor)
  have len: "length (layer_outlines example_volumes) = 3"
    by (simp add: example_volumes_def ModelVolumes_ctor_def example_storage_def)
  from avoidance_total[OF ok, of 1 0] len
  obtain p mv1 where a: "avoidance ?E example_volumes 0 1 = Some (p, mv1)"
    and ok1: "caches_ok ?E mv1" and sm1: "same_model example_volumes mv1" by auto
  have len1: "length (layer_outlines mv1) = 3" using sm1 len by (simp add: same_model_def)
  from collision_total[OF ok1, of 0 100] len1
  obtain c mva where c: "collision ?E mv1 100 0 = Some (c, mva)"
    and oka: "caches_ok ?E mva" and sma: "same_model mv1 mva" by auto
  have lena: "length (layer_outlines mva) = 3" using sma len1 by (simp add: same_model_def)
  from internal_model_total[OF oka, of 2 0] lena
  obtain i mv2 where i: "internal_model ?E mva 0 2 = Some (i, mv2)" by auto
  have q: "volumes_lookup ?E example_volumes (avoidance_query 0 1) = Some (p, mv1)"
    using a by simp
  have qs: "volumes_lookups ?E mv1 [collision_query 100 0, internal_model_query 0 2] = Some mv2"
    using c i by simp
  from lookups_referentially_transparent[OF q qs] q qs show ?thesis by blast
qed

text \<open>
  Claim C3.  The motion limit is \<open>tan(support_angle) * layer_height\<close> below 90 degrees and
  the largest \<open>coord_t\<close> from 90 degrees on, wherever it is computed.  At 90 degrees, which is
  \<open>pi / 2\<close> in the radians the setting is held in, only \<open>propagateCollisionAreas\<close> clamps:
  \<open>dropNodes\<close> and the constructor of \<open>TreeParams\<close> compare the radians with 90, take the
  tangent and return the cast of the product, which is not the largest \<open>coord_t\<close> whenever the
  product is a double below it that the cast can convert.
\<close>

theorem max_move_not_clamped_at_right_angle:
  assumes "- (2 ^ 63) \<le> mul_double E (tan_double E (pi / 2)) (real_of_int (get_layer_height s))"
    and "mul_double E (tan_double E (pi / 2)) (real_of_int (get_layer_height s)) < real_of_int coord_max"
  shows "dropNodes_maximum_move_distance E (s\<lparr>get_support_tree_angle := pi / 2\<rparr>) \<noteq> coord_max \<and>
         TreeParams_max_move E (s\<lparr>get_support_tree_angle := pi / 2\<rparr>) \<noteq> coord_max \<and>
         dropNodes_maximum_move_distance E (s\<lparr>get_support_tree_angle := pi / 2\<rparr>) =
           truncate_double (mul_double E (tan_double E (pi / 2)) (real_of_int (get_layer_height s))) \<and>
         TreeParams_max_move E (s\<lparr>get_support_tree_angle := pi / 2\<rparr>) =
           truncate_double (mul_double E (tan_double E (pi / 2)) (real_of_int (get_layer_height s))) \<and>
         propagateCollisionAreas_maximum_move_distance E (s\<lparr>get_support_tree_angle := pi / 2\<rparr>) =
           coord_max"
proof -
  let ?x = "mul_double E (tan_double E (pi / 2)) (real_of_int (get_layer_height s))"
  have lt: "pi / 2 < 90" using pi_less_4 by simp
  have up: "truncate_double ?x < coord_max"
  proof (cases "0 \<le> ?x")
    case True
    then have "real_of_int (truncate_double ?x) \<le> ?x" by (simp add: truncate_double_def)
    with assms(2) have "real_of_int (truncate_double ?x) < real_of_int coord_max" by simp
    then show ?thesis by (simp only: of_int_less_iff)
  next
    case False
    then have "truncate_double ?x \<le> 0" by (simp add: truncate_double_def ceiling_le_zero)
    then show ?thesis by (simp add: coord_max_def)
  qed
  have low: "- (2 ^ 63) \<le> truncate_double ?x"
  proof (cases "0 \<le> ?x")
    case True
    then have "0 \<le> truncate_double ?x" by (simp add: truncate_double_def)
    then show ?thesis by simp
  next
    case False
    have "real_of_int (- (2 ^ 63)) \<le> ?x" using assms(1) by simp
    then have "- (2 ^ 63) \<le> \<lceil>?x\<rceil>" by (simp only: le_ceiling_iff)
    with False show ?thesis by (simp add: truncate_double_def)
  qed
  have tc: "to_coord E ?x = truncate_double ?x" using up low by (simp add: to_coord_def)
  have d: "dropNodes_maximum_move_distance E (s\<lparr>get_support_tree_angle := pi / 2\<rparr>) = truncate_double ?x"
    using lt tc by (simp add: dropNodes_maximum_move_distance_def Let_def)
  have t: "TreeParams_max_move E (s\<lparr>get_support_tree_angle := pi / 2\<rparr>) = truncate_double ?x"
    using lt tc by (simp add: TreeParams_max_move_def Let_def)
  have c: "propagateCollisionAreas_maximum_move_distance E (s\<lparr>get_support_tree_angle := pi / 2\<rparr>) = coord_max"
    by (simp add: propagateCollisionAreas_maximum_move_distance_def TAU_def Let_def)
  from d t c up show ?thesis by simp
qed

theorem max_move_not_clamped_at_right_angle_witness:
  "dropNodes_maximum_move_distance right_angle_extern (example_settings\<lparr>get_support_tree_angle := pi / 2\<rparr>)
     = 3266247870639074000 \<and>
   TreeParams_max_move right_angle_extern (example_settings\<lparr>get_support_tree_angle := pi / 2\<rparr>)
     = 3266247870639074000 \<and>
   (3266247870639074000 :: int) \<noteq> coord_max \<and>
   propagateCollisionAreas_maximum_move_distance right_angle_extern
     (example_settings\<lparr>get_support_tree_angle := pi / 2\<rparr>) = coord_max"
proof -
  have x: "mul_double right_angle_extern (tan_double right_angle_extern (pi / 2))
             (real_of_int (get_layer_height example_settings)) = 3266247870639074000"
    by (simp add: mul_double_def right_angle_extern_def example_extern_def example_settings_def)
  have tr: "truncate_double 3266247870639074000 = 3266247870639074000"
    by (simp add: truncate_double_def)
  have h1: "- (2 ^ 63) \<le> mul_double right_angle_extern (tan_double right_angle_extern (pi / 2))
             (real_of_int (get_layer_height example_settings))"
    unfolding x by simp
  have h2: "mul_double right_angle_extern (tan_double right_angle_extern (pi / 2))
             (real_of_int (get_layer_height example_settings)) < real_of_int coord_max"
    unfolding x by (simp add: coord_max_def)
  from max_move_not_clamped_at_right_angle[OF h1 h2]
  show ?thesis unfolding x tr by (simp add: coord_max_def)
qed

subsection \<open>The working set is on one layer\<close>
















end
